theory Spec2Isabelle
  imports Main "HOL-Library.Sublist"
begin

section \<open>Exceptions and log records\<close>

text \<open>
  The exceptions the modelled code distinguishes. Every value of \<open>exn\<close> stands for an
  instance of Python's \<open>Exception\<close>: \<open>NotImplementedError\<close> and
  \<open>SlackAPIResponseError\<close> (with its \<open>error\<close> attribute) are caught by name in the
  chat room plugin, \<open>KeyError\<close> by the test backend, and \<open>Exception\<close> is any other
  failure (a room join error, a delivery error, a \<open>TypeError\<close>), with its text.
\<close>

datatype exn =
    NotImplementedError
  | SlackAPIResponseError string
  | KeyError string
  | Exception string

datatype loglevel = DEBUG | INFO | WARNING | ERROR

text \<open>
  A log record keeps the level, the format string of the source and the values formatted
  into it; \<open>LogException\<close> is \<open>log.exception\<close>, with the exception formatted into the
  text. How \<open>repr\<close>, \<open>%\<close> and \<open>format\<close> render the values is left to Python.
\<close>

datatype logrec =
    Log loglevel string "string list"
  | LogException string exn

section \<open>The test backend (errbot/backends/test.py)\<close>

record MUCRoom =
  jid :: string
  occupants :: "string list"
  topic :: "string option"

text \<open>
  \<open>config\<close> is the module \<open>errbot.config-template\<close> (test.py puts it into
  \<open>sys.modules\<close> under that name); its \<open>BOT_IDENTITY\<close> is the dictionary of
  config-template.py.
\<close>

definition BOT_IDENTITY :: "string \<rightharpoonup> string" where
  "BOT_IDENTITY = [''username'' \<mapsto> ''err@localhost'', ''password'' \<mapsto> ''err'']"

text \<open>
  The module-level dictionary \<open>joined_rooms\<close> and the records written by \<open>logging\<close>.
\<close>

record test_backend =
  joined_rooms :: "string \<rightharpoonup> MUCRoom"
  test_log :: "logrec list"

text \<open>
  \<open>TestBackend.join_room(room, username=None, password=None)\<close>. The result pairs the
  exception raised, if any, with the state left behind.
\<close>

definition join_room ::
  "string \<Rightarrow> string option \<Rightarrow> string option \<Rightarrow> test_backend \<Rightarrow> exn option \<times> test_backend" where
  "join_room room username password tb =
     (if room \<in> dom (joined_rooms tb)
      then (None, tb\<lparr>test_log := test_log tb @
              [Log WARNING ''Attempted to join room '{0}', but already in this room'' [room]]\<rparr>)
      else (case BOT_IDENTITY ''username'' of
              None \<Rightarrow> (Some (KeyError ''username''), tb)
            | Some bot_itself \<Rightarrow>
                (None, tb\<lparr>joined_rooms := (joined_rooms tb)
                   (room \<mapsto> \<lparr>jid = room, occupants = [bot_itself], topic = None\<rparr>)\<rparr>)))"

text \<open>
  \<open>TestBackend.leave_room(room)\<close>: \<open>joined_rooms.pop(room)\<close> raises \<open>KeyError\<close> for an
  absent key, which the \<open>except KeyError\<close> clause turns into a warning.
\<close>

definition pop_room :: "string \<Rightarrow> test_backend \<Rightarrow> exn + test_backend" where
  "pop_room room tb =
     (case joined_rooms tb room of
        None \<Rightarrow> Inl (KeyError room)
      | Some r \<Rightarrow> Inr (tb\<lparr>joined_rooms := (joined_rooms tb)(room := None)\<rparr>))"

definition leave_room :: "string \<Rightarrow> test_backend \<Rightarrow> exn option \<times> test_backend" where
  "leave_room room tb =
     (case pop_room room tb of
        Inr tb' \<Rightarrow> (None, tb'\<lparr>test_log := test_log tb' @ [Log INFO ''Left room {0}'' [room]]\<rparr>)
      | Inl (KeyError k) \<Rightarrow>
          (None, tb\<lparr>test_log := test_log tb @
             [Log WARNING ''Attempted to leave room '{0}', but not in this room'' [room]]\<rparr>)
      | Inl e \<Rightarrow> (Some e, tb))"

section \<open>The chat room plugin (errbot/core_plugins/chatRoom.py)\<close>

text \<open>
  An entry of \<open>CHATROOM_PRESENCE\<close> is a room name or a pair of a room name and its
  password.
\<close>

datatype presence = Room string | RoomWithPassword string string

text \<open>
  The users a room is relayed to are written in the configuration as a tuple or as a
  list. A loop goes through both in the same way, but \<open>'... %s.' % users\<close> does not
  treat them alike: a list is the one value formatted into the text, while the items of a
  tuple are the values, and the text takes exactly one. With no item Python raises
  \<open>TypeError\<close> (not enough arguments for format string), with two or more it raises
  \<open>TypeError\<close> (not all arguments converted during string formatting).
\<close>

datatype relay_targets = PyTuple "string list" | PyList "string list"

fun targets :: "relay_targets \<Rightarrow> string list" where
  "targets (PyTuple users) = users"
| "targets (PyList users) = users"

fun percent_s :: "relay_targets \<Rightarrow> exn + string list" where
  "percent_s (PyList users) = Inr users"
| "percent_s (PyTuple []) = Inl (Exception ''TypeError'')"
| "percent_s (PyTuple [user]) = Inr [user]"
| "percent_s (PyTuple (user # user' # users)) = Inl (Exception ''TypeError'')"

text \<open>
  The configuration the plugin reads. The relay tables are dictionaries from a user to
  the rooms, and from a room to the users, in configured order. The rooms of
  \<open>CHATROOM_RELAY\<close> are only looped over, so a tuple and a list of rooms are the same
  list here. \<open>HIPCHAT_MODE\<close> is read by the older plugin
  (errbot/builtins/chatRoom.py) only.
\<close>

record bot_config =
  CHATROOM_PRESENCE :: "presence list"
  CHATROOM_FN :: string
  CHATROOM_RELAY :: "string \<rightharpoonup> string list"
  REVERSE_CHATROOM_RELAY :: "string \<rightharpoonup> relay_targets"
  HIPCHAT_MODE :: bool

text \<open>
  The backend behind the plugin is not part of the plugin: each of its operations is a
  parameter that tells, for the arguments of a call, whether the call raises (and what)
  or returns. \<open>query_room_join room username password\<close> is
  \<open>self.query_room(room).join(username=username, password=password)\<close>,
  \<open>legacy_join_room\<close> is \<open>self.join_room(room, username, password)\<close>,
  \<open>send_raises user text message_type\<close> is \<open>self.send(user, text, message_type=...)\<close>
  and \<open>bare_send_raises\<close> is \<open>self.bare_send(xmpp.Presence())\<close>.
\<close>

record backend =
  query_room_join :: "string \<Rightarrow> string \<Rightarrow> string option \<Rightarrow> exn option"
  legacy_join_room :: "string \<Rightarrow> string \<Rightarrow> string option \<Rightarrow> exn option"
  send_raises :: "string \<Rightarrow> string \<Rightarrow> string \<Rightarrow> exn option"
  bare_send_raises :: "exn option"

text \<open>
  The state the plugin changes: its \<open>connected\<close> flag, the joins and the sends the backend
  has carried out (in order; a call that raised leaves no entry), the presence stanzas
  sent, the keep-alive timers started and the log.
\<close>

record bot =
  connected :: bool
  joins :: "(string \<times> string \<times> string option) list"
  sent :: "(string \<times> string \<times> string) list"
  presences :: nat
  timers :: nat
  logged :: "logrec list"

definition logging :: "logrec \<Rightarrow> bot \<Rightarrow> bot" where
  "logging r w = w\<lparr>logged := logged w @ [r]\<rparr>"

definition send :: "backend \<Rightarrow> string \<Rightarrow> string \<Rightarrow> string \<Rightarrow> bot \<Rightarrow> exn option \<times> bot" where
  "send be user text message_type w =
     (case send_raises be user text message_type of
        Some e \<Rightarrow> (Some e, w)
      | None \<Rightarrow> (None, w\<lparr>sent := sent w @ [(user, text, message_type)]\<rparr>))"

definition bare_send :: "backend \<Rightarrow> bot \<Rightarrow> exn option \<times> bot" where
  "bare_send be w =
     (case bare_send_raises be of
        Some e \<Rightarrow> (Some e, w)
      | None \<Rightarrow> (None, w\<lparr>presences := Suc (presences w)\<rparr>))"

definition SLACK_USER_IS_BOT_HELPTEXT :: string where
  "SLACK_USER_IS_BOT_HELPTEXT =
     ''Connected to Slack using a bot account, which cannot manage '' @
     ''channels itself (you must invite the bot to channels instead, '' @
     ''it will auto-accept) nor invite people.\<newline>\<newline>'' @
     ''If you need this functionality, you will have to create a '' @
     ''regular user account and connect Err using that account. '' @
     ''For this, you will also need to generate a user token at '' @
     ''https://api.slack.com/web.''"

subsection \<open>callback_connect\<close>

text \<open>
  \<open>room, username, password\<close> of one entry: \<open>compat_str(room)\<close> is the name for a
  string and \<open>None\<close> for a pair, whose items are then the room and the password.
\<close>

fun room_username_password :: "bot_config \<Rightarrow> presence \<Rightarrow> string \<times> string \<times> string option" where
  "room_username_password cfg (Room room_name) = (room_name, CHATROOM_FN cfg, None)"
| "room_username_password cfg (RoomWithPassword room0 room1) = (room0, CHATROOM_FN cfg, Some room1)"

fun presence_repr :: "presence \<Rightarrow> string list" where
  "presence_repr (Room room_name) = [room_name]"
| "presence_repr (RoomWithPassword room0 room1) = [room0, room1]"

text \<open>
  The \<open>for room in self.bot_config.CHATROOM_PRESENCE\<close> loop. An exception that no
  clause catches, or that a clause raises again, leaves the loop and the function; the
  \<open>return\<close> of the \<open>user_is_bot\<close> clause leaves both as well, without an exception.
\<close>

fun join_rooms :: "bot_config \<Rightarrow> backend \<Rightarrow> presence list \<Rightarrow> bot \<Rightarrow> exn option \<times> bot" where
  "join_rooms cfg be [] w = (None, w)"
| "join_rooms cfg be (entry # rest) w =
     (let w1 = logging (Log DEBUG ''Try to join room %s'' (presence_repr entry)) w;
          room = fst (room_username_password cfg entry);
          username = fst (snd (room_username_password cfg entry));
          password = snd (snd (room_username_password cfg entry));
          w2 = logging (Log INFO ''Joining room {} with username {}'' [room, username]) w1
      in case query_room_join be room (CHATROOM_FN cfg) password of
           None \<Rightarrow>
             join_rooms cfg be rest (w2\<lparr>joins := joins w2 @ [(room, CHATROOM_FN cfg, password)]\<rparr>)
         | Some NotImplementedError \<Rightarrow>
             (let w3 = logging (Log WARNING
                  ''query_room not implemented on this backend, using legacy join_room instead'' []) w2
              in case legacy_join_room be room username password of
                   None \<Rightarrow>
                     join_rooms cfg be rest (w3\<lparr>joins := joins w3 @ [(room, username, password)]\<rparr>)
                 | Some e \<Rightarrow> (Some e, w3))
         | Some (SlackAPIResponseError err) \<Rightarrow>
             (if err \<noteq> ''user_is_bot'' then (Some (SlackAPIResponseError err), w2)
              else (None, logging (Log WARNING
                  (''Ignoring entries from CHATROOM_PRESENCE. '' @ SLACK_USER_IS_BOT_HELPTEXT) []) w2))
         | Some e \<Rightarrow> (Some e, w2))"

definition callback_connect :: "bot_config \<Rightarrow> backend \<Rightarrow> bot \<Rightarrow> exn option \<times> bot" where
  "callback_connect cfg be w =
     (let w0 = logging (Log INFO ''Callback_connect'' []) w
      in if \<not> connected w0
         then join_rooms cfg be (CHATROOM_PRESENCE cfg) (w0\<lparr>connected := True\<rparr>)
         else (None, w0))"

subsection \<open>room_join\<close>

text \<open>
  \<open>args.split(' ', 1)\<close>: the text before the first space and the text after it, or the
  whole text when it has no space.
\<close>

definition split_space_1 :: "string \<Rightarrow> string list" where
  "split_space_1 s =
     (case dropWhile (\<lambda>c. c \<noteq> CHR '' '') s of
        [] \<Rightarrow> [s]
      | sp # after \<Rightarrow> [takeWhile (\<lambda>c. c \<noteq> CHR '' '') s, after])"

text \<open>
  The command \<open>room_join(message, args)\<close>: \<open>Inr\<close> is the text it returns, \<open>Inl\<close> the
  exception it raises. \<open>args[0].strip()\<close> computes a value that is dropped. \<open>args[0]\<close>
  and \<open>args[1]\<close> are read where the list is long enough.
\<close>

definition room_join ::
  "bot_config \<Rightarrow> backend \<Rightarrow> string \<Rightarrow> bot \<Rightarrow> (exn + string) \<times> bot" where
  "room_join cfg be args w =
     (let args = split_space_1 args;
          arglen = length args
      in if arglen < 1 then (Inr ''Please tell me which chatroom to join.'', w)
         else
           (let room = args ! 0;
                password = (if arglen = 1 then None else Some (args ! 1))
            in case query_room_join be room (CHATROOM_FN cfg) password of
                 None \<Rightarrow>
                   (Inr (''Joined the room '' @ room),
                    w\<lparr>joins := joins w @ [(room, CHATROOM_FN cfg, password)]\<rparr>)
               | Some (SlackAPIResponseError err) \<Rightarrow>
                   (if err \<noteq> ''user_is_bot'' then (Inl (SlackAPIResponseError err), w)
                    else (Inr (''Unable to join rooms. '' @ SLACK_USER_IS_BOT_HELPTEXT), w))
               | Some e \<Rightarrow> (Inl e, w)))"

subsection \<open>callback_message\<close>

text \<open>
  The attributes of a message the plugins read. \<open>frm_person\<close> and \<open>frm_room\<close> are
  \<open>mess.frm.person\<close> and \<open>mess.frm.room\<close>; \<open>frm_node\<close>, \<open>frm_domain\<close> and
  \<open>frm_resource\<close> are the parts of the XMPP address the older plugin reads.
\<close>

record sender =
  frm_person :: string
  frm_room :: string
  frm_node :: string
  frm_domain :: string
  frm_resource :: string

record message =
  mess_type :: string
  frm :: sender
  body :: string

text \<open>
  Modelled from the spec: \<open>BotPlugin.send\<close> is not among the sources; without a
  \<open>message_type\<close> it sends a direct message (type \<open>chat\<close>).
\<close>

definition default_message_type :: string where
  "default_message_type = ''chat''"

text \<open>\<open>for user in users: self.send(user, text, message_type=...)\<close>.\<close>

fun send_all :: "backend \<Rightarrow> string list \<Rightarrow> string \<Rightarrow> string \<Rightarrow> bot \<Rightarrow> exn option \<times> bot" where
  "send_all be [] text message_type w = (None, w)"
| "send_all be (user # rest) text message_type w =
     (case send be user text message_type w of
        (Some e, w') \<Rightarrow> (Some e, w')
      | (None, w') \<Rightarrow> send_all be rest text message_type w')"

text \<open>
  The statements inside the \<open>try\<close> of \<open>callback_message\<close>. The text of a debug
  record is formatted before \<open>log.debug\<close> is called, whatever the log level, so
  \<open>'Message to relay to %s.' % users_to_relay_to\<close> can raise before the first send.
\<close>

definition callback_message_try :: "bot_config \<Rightarrow> backend \<Rightarrow> message \<Rightarrow> bot \<Rightarrow> exn option \<times> bot" where
  "callback_message_try cfg be mess w =
     (if mess_type mess = ''chat'' then
        (let username = frm_person (frm mess)
         in case CHATROOM_RELAY cfg username of
              Some rooms \<Rightarrow>
                send_all be rooms (body mess) ''groupchat''
                  (logging (Log DEBUG ''Message to relay from %s.'' [username]) w)
            | None \<Rightarrow> (None, w))
      else if mess_type mess = ''groupchat'' then
        (let fr = frm mess;
             chat_room = frm_room fr
         in case REVERSE_CHATROOM_RELAY cfg chat_room of
              Some users_to_relay_to \<Rightarrow>
                (case percent_s users_to_relay_to of
                   Inl e \<Rightarrow> (Some e, w)
                 | Inr formatted \<Rightarrow>
                     send_all be (targets users_to_relay_to)
                       (''['' @ frm_person fr @ ''] '' @ body mess) default_message_type
                       (logging (Log DEBUG ''Message to relay to %s.'' formatted) w))
            | None \<Rightarrow> (None, w))
      else (None, w))"

text \<open>
  \<open>callback_message\<close>: \<open>except Exception as e\<close> catches what the statements raise and
  logs it.
\<close>

definition callback_message :: "bot_config \<Rightarrow> backend \<Rightarrow> message \<Rightarrow> bot \<Rightarrow> exn option \<times> bot" where
  "callback_message cfg be mess w =
     (case callback_message_try cfg be mess w of
        (Some e, w') \<Rightarrow> (None, logging (LogException ''crashed in callback_message %s'' e) w')
      | (None, w') \<Rightarrow> (None, w'))"

section \<open>The older chat room plugin (errbot/builtins/chatRoom.py)\<close>

text \<open>
  \<open>keep_alive\<close> sends the heartbeat and starts a daemon timer that will call it again
  ten seconds later; the model does the first call and counts the timer.
\<close>

definition keep_alive :: "bot_config \<Rightarrow> backend \<Rightarrow> bot \<Rightarrow> exn option \<times> bot" where
  "keep_alive cfg be w =
     (case (if HIPCHAT_MODE cfg then send be ''nobody'' '' '' ''groupchat'' w else bare_send be w) of
        (Some e, w') \<Rightarrow> (Some e, w')
      | (None, w') \<Rightarrow> (None, w'\<lparr>timers := Suc (timers w')\<rparr>))"

text \<open>
  \<open>for room in CHATROOM_PRESENCE\<close> of the older plugin: \<open>'Join room ' + room\<close> raises
  a \<open>TypeError\<close> for an entry that is not a string, and nothing catches what
  \<open>self.join_room(room, CHATROOM_FN)\<close> raises.
\<close>

fun join_rooms_builtins :: "bot_config \<Rightarrow> backend \<Rightarrow> presence list \<Rightarrow> bot \<Rightarrow> exn option \<times> bot" where
  "join_rooms_builtins cfg be [] w = (None, w)"
| "join_rooms_builtins cfg be (RoomWithPassword room0 room1 # rest) w =
     (Some (Exception ''TypeError''), w)"
| "join_rooms_builtins cfg be (Room room # rest) w =
     (let w1 = logging (Log INFO ''Join room '' [room]) w
      in case legacy_join_room be room (CHATROOM_FN cfg) None of
           None \<Rightarrow>
             join_rooms_builtins cfg be rest (w1\<lparr>joins := joins w1 @ [(room, CHATROOM_FN cfg, None)]\<rparr>)
         | Some e \<Rightarrow> (Some e, w1))"

definition callback_connect_builtins :: "bot_config \<Rightarrow> backend \<Rightarrow> bot \<Rightarrow> exn option \<times> bot" where
  "callback_connect_builtins cfg be w =
     (let w0 = logging (Log INFO ''Callback_connect'' []) w
      in if \<not> connected w0
         then (case join_rooms_builtins cfg be (CHATROOM_PRESENCE cfg) (w0\<lparr>connected := True\<rparr>) of
                 (Some e, w') \<Rightarrow> (Some e, w')
               | (None, w') \<Rightarrow> keep_alive cfg be (logging (Log INFO ''Start keep alive'' []) w'))
         else (None, w0))"

text \<open>
  Modelled from the spec: \<open>get_jid_from_message\<close> is not among the sources; for a direct
  message it is the sender identity in bare form, \<open>node@domain\<close>.
\<close>

definition get_jid_from_message :: "message \<Rightarrow> string" where
  "get_jid_from_message mess = frm_node (frm mess) @ ''@'' @ frm_domain (frm mess)"

definition callback_message_builtins_try ::
  "bot_config \<Rightarrow> backend \<Rightarrow> message \<Rightarrow> bot \<Rightarrow> exn option \<times> bot" where
  "callback_message_builtins_try cfg be mess w =
     (if mess_type mess = ''chat'' then
        (let username = get_jid_from_message mess
         in case CHATROOM_RELAY cfg username of
              Some rooms \<Rightarrow>
                send_all be rooms (body mess) ''groupchat''
                  (logging (Log DEBUG ''Message to relay from %s.'' [username]) w)
            | None \<Rightarrow> (None, w))
      else if mess_type mess = ''groupchat'' then
        (let fr = frm mess;
             chat_room = frm_node fr @ ''@'' @ frm_domain fr
         in case REVERSE_CHATROOM_RELAY cfg chat_room of
              Some users_to_relay_to \<Rightarrow>
                (case percent_s users_to_relay_to of
                   Inl e \<Rightarrow> (Some e, w)
                 | Inr formatted \<Rightarrow>
                     send_all be (targets users_to_relay_to)
                       (''['' @ frm_resource fr @ ''] '' @ body mess) ''chat''
                       (logging (Log DEBUG ''Message to relay to %s.'' formatted) w))
            | None \<Rightarrow> (None, w))
      else (None, w))"

definition callback_message_builtins ::
  "bot_config \<Rightarrow> backend \<Rightarrow> message \<Rightarrow> bot \<Rightarrow> exn option \<times> bot" where
  "callback_message_builtins cfg be mess w =
     (case callback_message_builtins_try cfg be mess w of
        (Some e, w') \<Rightarrow> (None, logging (LogException ''crashed in callback_message %s'' e) w')
      | (None, w') \<Rightarrow> (None, w'))"

section \<open>The identifier, the message and the reply pipeline (errbot/backends/base.py)\<close>

text \<open>
  The module errbot/backends/base.py (\<open>Identifier\<close>, \<open>Message\<close>, \<open>Backend\<close> and its
  \<open>_execute_and_send\<close>) is not among the sources; only its tests are. This section
  models it from the specification.
\<close>

datatype error = MalformedAddress | HandlerFailure string

subsection \<open>Identifier\<close>

text \<open>
  Modelled from the spec: the identifier of base.py, which is missing:
  \<open>{ person: string, host: string, resource: optional string }\<close>.
\<close>

record Identifier =
  person :: string
  host :: string
  resource :: "string option"

text \<open>
  Modelled from the spec: \<open>parse\<close> of the missing base.py. The string form is
  \<open>person@host[/resource]\<close> and the node may itself contain \<open>@\<close>, so parsing splits on
  the last \<open>@\<close> before \<open>/\<close>: the address is the text before the first \<open>/\<close>, the
  resource is the text after it, and the address is split at its last \<open>@\<close>. It fails
  with \<open>MalformedAddress\<close> if no \<open>@\<close> is present there.
\<close>

definition parse :: "string \<Rightarrow> error + Identifier" where
  "parse raw =
     (let address = takeWhile (\<lambda>c. c \<noteq> CHR ''/'') raw;
          after = dropWhile (\<lambda>c. c \<noteq> CHR ''/'') raw
      in if CHR ''@'' \<notin> set address then Inl MalformedAddress
         else Inr \<lparr>person = rev (tl (dropWhile (\<lambda>c. c \<noteq> CHR ''@'') (rev address))),
                   host = rev (takeWhile (\<lambda>c. c \<noteq> CHR ''@'') (rev address)),
                   resource = (case after of [] \<Rightarrow> None | slash # r \<Rightarrow> Some r)\<rparr>)"

text \<open>
  Modelled from the spec: \<open>toString\<close> of the missing base.py reconstructs
  \<open>person@host\<close> or \<open>person@host/resource\<close>.
\<close>

definition toString :: "Identifier \<Rightarrow> string" where
  "toString i =
     person i @ ''@'' @ host i @ (case resource i of None \<Rightarrow> [] | Some r \<Rightarrow> ''/'' @ r)"

text \<open>
  Modelled from the spec: \<open>bareMatches\<close> of the missing base.py compares person and
  host only.
\<close>

definition bareMatches :: "Identifier \<Rightarrow> Identifier \<Rightarrow> bool" where
  "bareMatches a b = (person a = person b \<and> host a = host b)"

subsection \<open>Message\<close>

datatype kind = Direct | Broadcast

text \<open>
  Modelled from the spec: the message of the missing base.py,
  \<open>{ from, to, body, rich_body, kind }\<close>, without the rich body, which is derived from
  the body and plays no part in the pipeline's steps below.
\<close>

record Message =
  msg_from :: Identifier
  msg_to :: Identifier
  msg_body :: string
  msg_kind :: kind

text \<open>
  What the pipeline reads of the configuration: the message-size limit, the fixed marker
  of the synthetic error message (\<open>MSG_ERROR_OCCURRED\<close>), whether the failure's
  description is suppressed, and the bot's identity.
\<close>

record pipeline_config =
  MESSAGE_SIZE_LIMIT :: nat
  MSG_ERROR_OCCURRED :: string
  suppress_description :: bool
  bot_identity :: Identifier

text \<open>
  Modelled from the spec: the reply of the missing base.py copies \<open>from\<close> to \<open>to\<close>,
  swapped, and stamps the bot's own identity as \<open>from\<close>; each chunk of a reply has the
  same \<open>to\<close>, \<open>from\<close> and kind.
\<close>

definition build_reply :: "pipeline_config \<Rightarrow> Message \<Rightarrow> string \<Rightarrow> Message" where
  "build_reply cfg mess text =
     \<lparr>msg_from = bot_identity cfg, msg_to = msg_from mess, msg_body = text, msg_kind = msg_kind mess\<rparr>"

subsection \<open>Response chunking\<close>

definition whitespace :: "char \<Rightarrow> bool" where
  "whitespace c = (c = CHR '' '' \<or> c = CHR 0x09 \<or> c = CHR 0x0A \<or> c = CHR 0x0D)"

text \<open>The number of chunks of at most \<open>limit\<close> characters that \<open>n\<close> characters need.\<close>

definition chunks_needed :: "nat \<Rightarrow> nat \<Rightarrow> nat" where
  "chunks_needed limit n = (n + limit - 1) div limit"

text \<open>Position \<open>k\<close> of \<open>s\<close> is a whitespace boundary: a whitespace stands before or after it.\<close>

definition whitespace_boundary :: "string \<Rightarrow> nat \<Rightarrow> bool" where
  "whitespace_boundary s k =
     (0 < k \<and> k < length s \<and> (whitespace (s ! (k - 1)) \<or> whitespace (s ! k)))"

text \<open>
  Modelled from the spec: the split of the missing base.py. Where the first chunk of a
  text longer than the limit ends: at the last whitespace boundary within the limit
  that still leaves the smallest number of chunks, and at the limit when there is none.
\<close>

definition cut_point :: "nat \<Rightarrow> string \<Rightarrow> nat" where
  "cut_point limit s =
     (case filter (\<lambda>k. whitespace_boundary s k
                      \<and> Suc (chunks_needed limit (length s - k)) = chunks_needed limit (length s))
             (rev [1..<Suc limit]) of
        [] \<Rightarrow> limit
      | k # ks \<Rightarrow> k)"

text \<open>
  Modelled from the spec: response chunking of the missing base.py. A body that does not
  exceed the limit is one message; a longer one is split into the smallest number of
  contiguous chunks, each at most the limit, at whitespace boundaries when possible, in
  input order. Characters are code points, so no chunk ends inside one. A limit of zero
  allows no split.
\<close>

function split_chunks :: "nat \<Rightarrow> string \<Rightarrow> string list" where
  "split_chunks limit s =
     (if limit = 0 \<or> length s \<le> limit then [s]
      else take (cut_point limit s) s # split_chunks limit (drop (cut_point limit s) s))"
  by pat_completeness auto
termination
proof (relation "measure (\<lambda>(limit, s). length s)")
  show "wf (measure (\<lambda>(limit, s). length s))"
    by simp
next
  fix limit :: nat and s :: string
  assume a: "\<not> (limit = 0 \<or> length s \<le> limit)"
  have "0 < cut_point limit s"
  proof (cases "filter (\<lambda>k. whitespace_boundary s k
                      \<and> Suc (chunks_needed limit (length s - k)) = chunks_needed limit (length s))
             (rev [1..<Suc limit])")
    case Nil
    with a show ?thesis by (simp add: cut_point_def)
  next
    case (Cons k ks)
    then have "k \<in> set (filter (\<lambda>k. whitespace_boundary s k
                      \<and> Suc (chunks_needed limit (length s - k)) = chunks_needed limit (length s))
             (rev [1..<Suc limit]))"
      by simp
    then have "0 < k" by auto
    with Cons show ?thesis by (simp add: cut_point_def)
  qed
  with a show "((limit, drop (cut_point limit s) s), (limit, s)) \<in> measure (\<lambda>(limit, s). length s)"
    by auto
qed

declare split_chunks.simps [simp del]

subsection \<open>The execution pipeline\<close>

text \<open>
  Modelled from the spec: a lazy sequence of the handler is a pull-based, finite,
  non-restartable iterator of output items: it ends (\<open>Done\<close>), produces an item and goes
  on (\<open>Yield\<close>), or fails with a description on producing the next item (\<open>Fail\<close>).
\<close>

datatype replies = Done | Yield string replies | Fail string

text \<open>
  Modelled from the spec: what running the handler gives: a single text value, a failure,
  or a lazy sequence. A structured value is taken after its rendering through the
  template, as a text.
\<close>

datatype handler_result = Returns string | Raises string | Yields replies

text \<open>
  Modelled from the spec: the synthetic error message holds the fixed marker and, unless
  suppressed, the failure's description.
\<close>

definition error_text :: "pipeline_config \<Rightarrow> string \<Rightarrow> string" where
  "error_text cfg description =
     MSG_ERROR_OCCURRED cfg @ (if suppress_description cfg then [] else '': '' @ description)"

text \<open>
  Modelled from the spec: steps 3 and 4 of the pipeline. The sequence is consumed to
  exhaustion or to its first fault; each item produced is a text to send, in production
  order, and a fault appends the one synthetic error message.
\<close>

fun consume :: "pipeline_config \<Rightarrow> replies \<Rightarrow> string list" where
  "consume cfg Done = []"
| "consume cfg (Yield item rest) = item # consume cfg rest"
| "consume cfg (Fail description) = [error_text cfg description]"

fun texts_to_send :: "pipeline_config \<Rightarrow> handler_result \<Rightarrow> string list" where
  "texts_to_send cfg (Returns text) = [text]"
| "texts_to_send cfg (Raises description) = [error_text cfg description]"
| "texts_to_send cfg (Yields seq) = consume cfg seq"

text \<open>
  Modelled from the spec: \<open>_execute_and_send\<close> of the missing base.py, from the handler's
  result on (steps 3 to 6). Every text is split on its own, each chunk becomes a reply
  to the inbound message, and the replies are handed to the backend's \<open>send\<close> in the
  order produced (the list of sent messages grows at its end). The first component is the
  failure that leaves the pipeline: none.
\<close>

definition execute_and_send ::
  "pipeline_config \<Rightarrow> Message \<Rightarrow> handler_result \<Rightarrow> Message list \<Rightarrow> error option \<times> Message list" where
  "execute_and_send cfg mess result outbox =
     (None,
      outbox @ map (build_reply cfg mess)
                 (concat (map (split_chunks (MESSAGE_SIZE_LIMIT cfg)) (texts_to_send cfg result))))"

text \<open>The sequence that produces the given items and then fails.\<close>

definition yields_then_fails :: "string list \<Rightarrow> string \<Rightarrow> replies" where
  "yields_then_fails items description = foldr Yield items (Fail description)"

text \<open>The sequence that produces the given items and ends.\<close>

definition yields_all :: "string list \<Rightarrow> replies" where
  "yields_all items = foldr Yield items Done"

section \<open>Predicates and inputs of the theorems\<close>


text \<open>
  A configuration with two rooms to join, one user relayed into both rooms and one room
  relayed to a list of two users.
\<close>

definition relay_config :: bot_config where
  "relay_config =
     \<lparr>CHATROOM_PRESENCE = [Room ''room1'', Room ''room2''],
      CHATROOM_FN = ''bot'',
      CHATROOM_RELAY = [''alice@x'' \<mapsto> [''room1'', ''room2'']],
      REVERSE_CHATROOM_RELAY = [''room1@conf'' \<mapsto> PyList [''alice@x'', ''bob@x'']],
      HIPCHAT_MODE = False\<rparr>"

text \<open>
  The same configuration with the two users written as a tuple, as config-template.py
  writes the rooms of \<open>CHATROOM_RELAY\<close>.
\<close>

definition tuple_relay_config :: bot_config where
  "tuple_relay_config =
     relay_config\<lparr>REVERSE_CHATROOM_RELAY := [''room1@conf'' \<mapsto> PyTuple [''alice@x'', ''bob@x'']]\<rparr>"

text \<open>A backend on which every call returns.\<close>

definition healthy_backend :: backend where
  "healthy_backend =
     \<lparr>query_room_join = (\<lambda>room username password. None),
      legacy_join_room = (\<lambda>room username password. None),
      send_raises = (\<lambda>user text message_type. None),
      bare_send_raises = None\<rparr>"

text \<open>
  A backend on which joining \<open>room1\<close> and sending to \<open>room1\<close> or to \<open>alice@x\<close> raise, and
  every other call returns.
\<close>

definition failing_backend :: backend where
  "failing_backend =
     \<lparr>query_room_join = (\<lambda>room username password.
         if room = ''room1'' then Some (Exception ''RoomJoinError'') else None),
      legacy_join_room = (\<lambda>room username password.
         if room = ''room1'' then Some (Exception ''RoomJoinError'') else None),
      send_raises = (\<lambda>user text message_type.
         if user = ''room1'' \<or> user = ''alice@x'' then Some (Exception ''DeliveryError'') else None),
      bare_send_raises = None\<rparr>"



text \<open>
  A backend on which sending to \<open>room2\<close> or to \<open>bob@x\<close> raises, and every other call
  returns.
\<close>

definition late_failing_backend :: backend where
  "late_failing_backend =
     \<lparr>query_room_join = (\<lambda>room username password. None),
      legacy_join_room = (\<lambda>room username password. None),
      send_raises = (\<lambda>user text message_type.
         if user = ''room2'' \<or> user = ''bob@x'' then Some (Exception ''DeliveryError'') else None),
      bare_send_raises = None\<rparr>"

definition fresh_bot :: bot where
  "fresh_bot = \<lparr>connected = False, joins = [], sent = [], presences = 0, timers = 0, logged = []\<rparr>"

definition hello_from_alice :: message where
  "hello_from_alice =
     \<lparr>mess_type = ''chat'',
      frm = \<lparr>frm_person = ''alice@x'', frm_room = [], frm_node = ''alice'', frm_domain = ''x'',
             frm_resource = ''laptop''\<rparr>,
      body = ''hello''\<rparr>"

definition hello_from_bob :: message where
  "hello_from_bob =
     \<lparr>mess_type = ''chat'',
      frm = \<lparr>frm_person = ''bob@x'', frm_room = [], frm_node = ''bob'', frm_domain = ''x'',
             frm_resource = ''phone''\<rparr>,
      body = ''hello''\<rparr>"

text \<open>A message that the occupant \<open>carol\<close> wrote in the room \<open>room1@conf\<close>.\<close>

definition hello_in_room1 :: message where
  "hello_in_room1 =
     \<lparr>mess_type = ''groupchat'',
      frm = \<lparr>frm_person = ''carol'', frm_room = ''room1@conf'', frm_node = ''room1'',
             frm_domain = ''conf'', frm_resource = ''carol''\<rparr>,
      body = ''hello''\<rparr>"

text \<open>
  The inbound message of the pipeline's tests, from \<open>noterr@localhost/resource\<close> to
  \<open>err@localhost/resource\<close>, and a pipeline configuration with a limit of ten characters.
\<close>

definition example_message :: Message where
  "example_message =
     \<lparr>msg_from = \<lparr>person = ''noterr'', host = ''localhost'', resource = Some ''resource''\<rparr>,
      msg_to = \<lparr>person = ''err'', host = ''localhost'', resource = Some ''resource''\<rparr>,
      msg_body = ''some_message'',
      msg_kind = Direct\<rparr>"

definition small_limit_config :: pipeline_config where
  "small_limit_config =
     \<lparr>MESSAGE_SIZE_LIMIT = 10,
      MSG_ERROR_OCCURRED = ''Oops'',
      suppress_description = False,
      bot_identity = \<lparr>person = ''err'', host = ''localhost'', resource = Some ''err''\<rparr>\<rparr>"

section \<open>Theorems\<close>

subsection \<open>The test backend's room table\<close>

text \<open>
  C10. In the test backend, \<open>join_room\<close> and \<open>leave_room\<close> raise for no room id. Joining a
  room that is in \<open>joined_rooms\<close> leaves the mapping as it is, and so does leaving a room
  that is not in it. Joining an absent room adds exactly the entry of that room (the keys
  become the old keys and the room), and leaving a present room removes exactly that
  entry (the keys become the old keys without the room).
\<close>

theorem join_leave_room_table:
  "fst (join_room room username password tb) = None
   \<and> fst (leave_room room tb) = None
   \<and> (room \<in> dom (joined_rooms tb) \<longrightarrow>
        joined_rooms (snd (join_room room username password tb)) = joined_rooms tb)
   \<and> (room \<notin> dom (joined_rooms tb) \<longrightarrow>
        joined_rooms (snd (leave_room room tb)) = joined_rooms tb)
   \<and> (room \<notin> dom (joined_rooms tb) \<longrightarrow>
        joined_rooms (snd (join_room room username password tb)) =
          (joined_rooms tb)(room \<mapsto> \<lparr>jid = room, occupants = [''err@localhost''], topic = None\<rparr>)
        \<and> dom (joined_rooms (snd (join_room room username password tb))) =
            insert room (dom (joined_rooms tb)))
   \<and> (room \<in> dom (joined_rooms tb) \<longrightarrow>
        joined_rooms (snd (leave_room room tb)) = (joined_rooms tb)(room := None)
        \<and> dom (joined_rooms (snd (leave_room room tb))) = dom (joined_rooms tb) - {room})"
  by (auto simp: join_room_def leave_room_def pop_room_def BOT_IDENTITY_def
           split: option.splits sum.splits exn.splits)

theorem join_leave_room_table_witness:
  "fst (join_room ''r1'' None None \<lparr>joined_rooms = Map.empty, test_log = []\<rparr>) = None
   \<and> dom (joined_rooms (snd (join_room ''r1'' None None
            \<lparr>joined_rooms = Map.empty, test_log = []\<rparr>))) = {''r1''}
   \<and> joined_rooms (snd (leave_room ''r1'' \<lparr>joined_rooms = Map.empty, test_log = []\<rparr>)) = Map.empty
   \<and> joined_rooms (snd (join_room ''r1'' None None
        \<lparr>joined_rooms = [''r1'' \<mapsto> \<lparr>jid = ''r1'', occupants = [], topic = None\<rparr>], test_log = []\<rparr>))
      = [''r1'' \<mapsto> \<lparr>jid = ''r1'', occupants = [], topic = None\<rparr>]
   \<and> dom (joined_rooms (snd (leave_room ''r1''
        \<lparr>joined_rooms = [''r1'' \<mapsto> \<lparr>jid = ''r1'', occupants = [], topic = None\<rparr>], test_log = []\<rparr>)))
      = {}"
  using join_leave_room_table [of "''r1''" None None "\<lparr>joined_rooms = Map.empty, test_log = []\<rparr>"]
        join_leave_room_table [of "''r1''" None None
          "\<lparr>joined_rooms = [''r1'' \<mapsto> \<lparr>jid = ''r1'', occupants = [], topic = None\<rparr>], test_log = []\<rparr>"]
  by simp

subsection \<open>Facts about the plugin's state and loops\<close>

lemma logging_simps:
  "connected (logging r w) = connected w"
  "joins (logging r w) = joins w"
  "sent (logging r w) = sent w"
  "presences (logging r w) = presences w"
  "timers (logging r w) = timers w"
  "logged (logging r w) = logged w @ [r]"
  by (simp_all add: logging_def)

lemmas example_defs = relay_config_def healthy_backend_def failing_backend_def fresh_bot_def
  hello_from_alice_def hello_from_bob_def hello_in_room1_def

lemma join_rooms_connected:
  "connected (snd (join_rooms cfg be rooms w)) = connected w"
  by (induction rooms arbitrary: w)
     (auto simp: Let_def logging_simps split: option.splits exn.splits)

lemma join_rooms_builtins_connected:
  "connected (snd (join_rooms_builtins cfg be rooms w)) = connected w"
  by (induction cfg be rooms w rule: join_rooms_builtins.induct)
     (auto simp: Let_def logging_simps split: option.splits)

lemma keep_alive_connected:
  "connected (snd (keep_alive cfg be w)) = connected w"
  by (auto simp: keep_alive_def send_def bare_send_def split: option.splits prod.splits if_splits)

lemma split_space_1_length: "1 \<le> length (split_space_1 args)"
  by (simp add: split_space_1_def split: list.splits)

lemma send_all_ok:
  "\<forall>user\<in>set users. send_raises be user text mt = None \<Longrightarrow>
   send_all be users text mt w = (None, w\<lparr>sent := sent w @ map (\<lambda>user. (user, text, mt)) users\<rparr>)"
  by (induction users arbitrary: w) (auto simp: send_def)

lemma send_all_fails:
  "\<forall>user\<in>set pre. send_raises be user text mt = None \<Longrightarrow>
   send_raises be failing text mt = Some e \<Longrightarrow>
   send_all be (pre @ failing # post) text mt w =
     (Some e, w\<lparr>sent := sent w @ map (\<lambda>user. (user, text, mt)) pre\<rparr>)"
  by (induction pre arbitrary: w) (auto simp: send_def)



subsection \<open>callback_connect\<close>

text \<open>
  C7. \<open>callback_connect\<close> is idempotent with respect to the connected state. Called while
  \<open>connected\<close> holds, it returns without an exception and changes nothing but the log,
  which gains the one line \<open>Callback_connect\<close>: no room is joined, nothing is sent and
  no keep-alive timer is started. This holds for the plugin and for the older plugin. After
  any call, from any state, \<open>connected\<close> holds, so a second call is such a call.
\<close>

theorem callback_connect_idempotent:
  "(connected w \<longrightarrow>
      callback_connect cfg be w = (None, logging (Log INFO ''Callback_connect'' []) w)
    \<and> callback_connect_builtins cfg be w = (None, logging (Log INFO ''Callback_connect'' []) w)
    \<and> joins (logging (Log INFO ''Callback_connect'' []) w) = joins w
    \<and> sent (logging (Log INFO ''Callback_connect'' []) w) = sent w
    \<and> presences (logging (Log INFO ''Callback_connect'' []) w) = presences w
    \<and> timers (logging (Log INFO ''Callback_connect'' []) w) = timers w
    \<and> connected (logging (Log INFO ''Callback_connect'' []) w))
   \<and> connected (snd (callback_connect cfg be w0))
   \<and> connected (snd (callback_connect_builtins cfg be w0))"
proof -
  have a: "connected (snd (callback_connect cfg be w0))"
    by (simp add: callback_connect_def Let_def logging_simps join_rooms_connected)
  have b: "connected (snd (callback_connect_builtins cfg be w0))"
    by (auto simp: callback_connect_builtins_def Let_def logging_simps keep_alive_connected
          split: prod.splits option.splits
          dest: arg_cong [where f = "\<lambda>p. connected (snd p)"]
          simp: join_rooms_builtins_connected)
  show ?thesis
    using a b by (simp add: callback_connect_def callback_connect_builtins_def Let_def logging_simps)
qed

theorem callback_connect_idempotent_witness:
  "callback_connect relay_config healthy_backend
     (snd (callback_connect relay_config healthy_backend fresh_bot)) =
   (None, logging (Log INFO ''Callback_connect'' [])
      (snd (callback_connect relay_config healthy_backend fresh_bot)))
   \<and> joins (snd (callback_connect relay_config healthy_backend fresh_bot)) =
       [(''room1'', ''bot'', None), (''room2'', ''bot'', None)]"
  using callback_connect_idempotent [of "snd (callback_connect relay_config healthy_backend fresh_bot)"
          relay_config healthy_backend fresh_bot]
  by (simp add: example_defs callback_connect_def Let_def logging_def)




subsection \<open>room_join\<close>

text \<open>
  C9. For every argument text of \<open>room_join\<close>, \<open>args.split(' ', 1)\<close> has at least one
  item, so the command never answers \<open>Please tell me which chatroom to join.\<close>; for
  the empty text the one item is the empty text, and the command joins the room named
  by the empty text and answers that it joined it.
\<close>

theorem room_join_usage_unreachable:
  "1 \<le> length (split_space_1 args)
   \<and> fst (room_join cfg be args w) \<noteq> Inr ''Please tell me which chatroom to join.''
   \<and> split_space_1 '''' = ['''']
   \<and> (query_room_join be '''' (CHATROOM_FN cfg) None = None \<longrightarrow>
        room_join cfg be '''' w =
          (Inr ''Joined the room '', w\<lparr>joins := joins w @ [('''', CHATROOM_FN cfg, None)]\<rparr>))"
  using split_space_1_length [of args]
  by (auto simp: room_join_def Let_def split_space_1_def SLACK_USER_IS_BOT_HELPTEXT_def
           split: option.splits exn.splits list.splits)

theorem room_join_usage_unreachable_witness:
  "room_join relay_config healthy_backend [] fresh_bot =
     (Inr ''Joined the room '', fresh_bot\<lparr>joins := [([], ''bot'', None)]\<rparr>)"
  using room_join_usage_unreachable [of "[]" relay_config healthy_backend fresh_bot]
  by (simp add: example_defs)

subsection \<open>callback_message\<close>



text \<open>
  Where the debug record of the broadcast direction formats (the users are a list or a
  tuple of one user) and the backend's \<open>send\<close> returns for the users, each user of the
  room's entry gets, in configured order, one direct (\<open>chat\<close>) message whose body is the
  name of the sending occupant in square brackets, a space and the original body. The
  name is \<open>mess.frm.person\<close>, and the resource of the sender's address in the older
  plugin.
\<close>

lemma broadcast_relay_when_log_formats:
  assumes "mess_type mess = ''groupchat''"
    and "percent_s users = Inr formatted"
  shows
   "(REVERSE_CHATROOM_RELAY cfg (frm_room (frm mess)) = Some users
      \<and> (\<forall>user\<in>set (targets users).
            send_raises be user (''['' @ frm_person (frm mess) @ ''] '' @ body mess) ''chat'' = None)
    \<longrightarrow> fst (callback_message cfg be mess w) = None
        \<and> sent (snd (callback_message cfg be mess w)) =
            sent w @ map (\<lambda>user. (user, ''['' @ frm_person (frm mess) @ ''] '' @ body mess, ''chat''))
                       (targets users))
   \<and> (REVERSE_CHATROOM_RELAY cfg (frm_node (frm mess) @ ''@'' @ frm_domain (frm mess)) = Some users
      \<and> (\<forall>user\<in>set (targets users).
            send_raises be user (''['' @ frm_resource (frm mess) @ ''] '' @ body mess) ''chat'' = None)
    \<longrightarrow> fst (callback_message_builtins cfg be mess w) = None
        \<and> sent (snd (callback_message_builtins cfg be mess w)) =
            sent w @ map (\<lambda>user. (user, ''['' @ frm_resource (frm mess) @ ''] '' @ body mess, ''chat''))
                       (targets users))"
  using assms
  by (simp add: callback_message_def callback_message_try_def callback_message_builtins_def
        callback_message_builtins_try_def Let_def send_all_ok logging_simps default_message_type_def)

text \<open>
  C5. For a message of type \<open>groupchat\<close> whose room is a key of
  \<open>REVERSE_CHATROOM_RELAY\<close>, \<open>callback_message\<close> is written to send to each user of
  that key, in configured order, a direct message with the body \<open>[name] body\<close>. It
  does not when the users are a tuple of two or more: for the room \<open>room1@conf\<close>
  relayed to the tuple \<open>('alice@x', 'bob@x')\<close> and a backend on which every call
  returns, formatting the debug record raises \<open>TypeError\<close> before the first send, the
  exception is caught and logged, and nothing is sent, in both plugins. With the same
  users written as a list both get \<open>[carol] hello\<close>.
\<close>

theorem broadcast_relay_tuple_sends_nothing:
  "REVERSE_CHATROOM_RELAY tuple_relay_config (frm_room (frm hello_in_room1)) =
     Some (PyTuple [''alice@x'', ''bob@x''])
   \<and> callback_message tuple_relay_config healthy_backend hello_in_room1 fresh_bot =
       (None, fresh_bot\<lparr>logged :=
          [LogException ''crashed in callback_message %s'' (Exception ''TypeError'')]\<rparr>)
   \<and> callback_message_builtins tuple_relay_config healthy_backend hello_in_room1 fresh_bot =
       (None, fresh_bot\<lparr>logged :=
          [LogException ''crashed in callback_message %s'' (Exception ''TypeError'')]\<rparr>)
   \<and> sent (snd (callback_message tuple_relay_config healthy_backend hello_in_room1 fresh_bot)) = []
   \<and> sent (snd (callback_message_builtins tuple_relay_config healthy_backend hello_in_room1 fresh_bot)) = []
   \<and> sent (snd (callback_message relay_config healthy_backend hello_in_room1 fresh_bot)) =
       [(''alice@x'', ''[carol] hello'', ''chat''), (''bob@x'', ''[carol] hello'', ''chat'')]
   \<and> sent (snd (callback_message_builtins relay_config healthy_backend hello_in_room1 fresh_bot)) =
       [(''alice@x'', ''[carol] hello'', ''chat''), (''bob@x'', ''[carol] hello'', ''chat'')]"
  by (simp add: example_defs tuple_relay_config_def callback_message_def callback_message_try_def
        callback_message_builtins_def callback_message_builtins_try_def Let_def logging_def
        send_def default_message_type_def)

text \<open>
  C3, as the code has it. No exception leaves \<open>callback_message\<close>. When, in a fan-out
  \<open>pre @ failing # post\<close>, the sends to \<open>pre\<close> return and the send to \<open>failing\<close>
  raises, the exception is caught and logged by \<open>log.exception\<close>, the targets of \<open>pre\<close>
  have received the message, in order, and nothing is sent to the targets of \<open>post\<close>: the
  \<open>try\<close> encloses the whole loop. In the broadcast direction this is the fan-out of an
  entry whose debug record formats (a list, or a tuple of one user); for another
  tuple no send is attempted at all.
\<close>

theorem relay_failure_caught:
  "fst (callback_message cfg be mess w) = None
   \<and> fst (callback_message_builtins cfg be mess w) = None
   \<and> (mess_type mess = ''chat''
       \<and> CHATROOM_RELAY cfg (frm_person (frm mess)) = Some (pre @ failing # post)
       \<and> (\<forall>room\<in>set pre. send_raises be room (body mess) ''groupchat'' = None)
       \<and> send_raises be failing (body mess) ''groupchat'' = Some e
      \<longrightarrow> sent (snd (callback_message cfg be mess w)) =
            sent w @ map (\<lambda>room. (room, body mess, ''groupchat'')) pre
        \<and> last (logged (snd (callback_message cfg be mess w))) =
            LogException ''crashed in callback_message %s'' e)
   \<and> (mess_type mess = ''groupchat''
       \<and> REVERSE_CHATROOM_RELAY cfg (frm_room (frm mess)) = Some users
       \<and> percent_s users = Inr formatted
       \<and> targets users = pre @ failing # post
       \<and> (\<forall>user\<in>set pre.
             send_raises be user (''['' @ frm_person (frm mess) @ ''] '' @ body mess) ''chat'' = None)
       \<and> send_raises be failing (''['' @ frm_person (frm mess) @ ''] '' @ body mess) ''chat'' = Some e
      \<longrightarrow> sent (snd (callback_message cfg be mess w)) =
            sent w @ map (\<lambda>user. (user, ''['' @ frm_person (frm mess) @ ''] '' @ body mess, ''chat'')) pre
        \<and> last (logged (snd (callback_message cfg be mess w))) =
            LogException ''crashed in callback_message %s'' e)
   \<and> (mess_type mess = ''chat''
       \<and> CHATROOM_RELAY cfg (get_jid_from_message mess) = Some (pre @ failing # post)
       \<and> (\<forall>room\<in>set pre. send_raises be room (body mess) ''groupchat'' = None)
       \<and> send_raises be failing (body mess) ''groupchat'' = Some e
      \<longrightarrow> sent (snd (callback_message_builtins cfg be mess w)) =
            sent w @ map (\<lambda>room. (room, body mess, ''groupchat'')) pre
        \<and> last (logged (snd (callback_message_builtins cfg be mess w))) =
            LogException ''crashed in callback_message %s'' e)
   \<and> (mess_type mess = ''groupchat''
       \<and> REVERSE_CHATROOM_RELAY cfg (frm_node (frm mess) @ ''@'' @ frm_domain (frm mess)) = Some users
       \<and> percent_s users = Inr formatted
       \<and> targets users = pre @ failing # post
       \<and> (\<forall>user\<in>set pre.
             send_raises be user (''['' @ frm_resource (frm mess) @ ''] '' @ body mess) ''chat'' = None)
       \<and> send_raises be failing (''['' @ frm_resource (frm mess) @ ''] '' @ body mess) ''chat'' = Some e
      \<longrightarrow> sent (snd (callback_message_builtins cfg be mess w)) =
            sent w @ map (\<lambda>user. (user, ''['' @ frm_resource (frm mess) @ ''] '' @ body mess, ''chat'')) pre
        \<and> last (logged (snd (callback_message_builtins cfg be mess w))) =
            LogException ''crashed in callback_message %s'' e)"
proof -
  have a: "fst (callback_message cfg be mess w) = None"
    by (simp add: callback_message_def split: prod.splits option.splits)
  have b: "fst (callback_message_builtins cfg be mess w) = None"
    by (simp add: callback_message_builtins_def split: prod.splits option.splits)
  show ?thesis
    using a b
    by (simp add: callback_message_def callback_message_try_def callback_message_builtins_def
          callback_message_builtins_try_def Let_def send_all_fails logging_simps
          default_message_type_def)
qed

theorem relay_failure_caught_witness:
  "fst (callback_message relay_config late_failing_backend hello_from_alice fresh_bot) = None
   \<and> sent (snd (callback_message relay_config late_failing_backend hello_from_alice fresh_bot)) =
       [(''room1'', ''hello'', ''groupchat'')]
   \<and> logged (snd (callback_message relay_config late_failing_backend hello_from_alice fresh_bot)) =
       [Log DEBUG ''Message to relay from %s.'' [''alice@x''],
        LogException ''crashed in callback_message %s'' (Exception ''DeliveryError'')]
   \<and> sent (snd (callback_message relay_config late_failing_backend hello_in_room1 fresh_bot)) =
       [(''alice@x'', ''[carol] hello'', ''chat'')]
   \<and> sent (snd (callback_message_builtins relay_config late_failing_backend hello_from_alice fresh_bot)) =
       [(''room1'', ''hello'', ''groupchat'')]
   \<and> sent (snd (callback_message_builtins relay_config late_failing_backend hello_in_room1 fresh_bot)) =
       [(''alice@x'', ''[carol] hello'', ''chat'')]
   \<and> sent (snd (callback_message relay_config failing_backend hello_from_alice fresh_bot)) = []
   \<and> sent (snd (callback_message relay_config failing_backend hello_in_room1 fresh_bot)) = []"
  using relay_failure_caught [of relay_config late_failing_backend hello_from_alice fresh_bot
          "[''room1'']" "''room2''" "[]" "Exception ''DeliveryError''"]
        relay_failure_caught [of relay_config late_failing_backend hello_in_room1 fresh_bot
          "[''alice@x'']" "''bob@x''" "[]" "Exception ''DeliveryError''"
          "PyList [''alice@x'', ''bob@x'']" "[''alice@x'', ''bob@x'']"]
        relay_failure_caught [of relay_config failing_backend hello_from_alice fresh_bot
          "[]" "''room1''" "[''room2'']" "Exception ''DeliveryError''"]
        relay_failure_caught [of relay_config failing_backend hello_in_room1 fresh_bot
          "[]" "''alice@x''" "[''bob@x'']" "Exception ''DeliveryError''"
          "PyList [''alice@x'', ''bob@x'']" "[''alice@x'', ''bob@x'']"]
  by (simp add: example_defs late_failing_backend_def get_jid_from_message_def callback_message_def
        callback_message_try_def callback_message_builtins_def callback_message_builtins_try_def
        default_message_type_def Let_def logging_def send_def)

text \<open>
  C3, as the claim states it, fails: \<open>alice@x\<close> is relayed to \<open>room1\<close> and \<open>room2\<close>, the
  send to \<open>room1\<close> raises and the send to \<open>room2\<close> would return, yet nothing is sent to
  \<open>room2\<close>.
\<close>

theorem relay_fan_out_counterexample:
  "send_raises failing_backend ''room2'' ''hello'' ''groupchat'' = None
   \<and> CHATROOM_RELAY relay_config (frm_person (frm hello_from_alice)) = Some [''room1'', ''room2'']
   \<and> sent (snd (callback_message relay_config failing_backend hello_from_alice fresh_bot)) = []
   \<and> sent (snd (callback_message_builtins relay_config failing_backend hello_from_alice fresh_bot)) = []"
  by (simp add: example_defs get_jid_from_message_def callback_message_def callback_message_try_def
        callback_message_builtins_def callback_message_builtins_try_def
        Let_def logging_def send_def)

subsection \<open>Facts about the identifier, the chunks and the pipeline\<close>

lemma parse_shape:
  assumes "CHR ''/'' \<notin> set p" "CHR ''@'' \<notin> set h" "CHR ''/'' \<notin> set h"
  shows "parse (p @ ''@'' @ h @ ''/'' @ r) = Inr \<lparr>person = p, host = h, resource = Some r\<rparr>"
proof -
  have tw: "takeWhile (\<lambda>c. c \<noteq> CHR ''/'') (p @ CHR ''@'' # h @ CHR ''/'' # r) = p @ CHR ''@'' # h"
    using assms(1,3) by (induction p) (auto simp: takeWhile_tail)
  have dw: "dropWhile (\<lambda>c. c \<noteq> CHR ''/'') (p @ CHR ''@'' # h @ CHR ''/'' # r) = CHR ''/'' # r"
    using assms(1,3) by (induction p) (auto simp: dropWhile_append3)
  have r1: "takeWhile (\<lambda>c. c \<noteq> CHR ''@'') (rev h @ CHR ''@'' # rev p) = rev h"
    using assms(2) by (auto simp: takeWhile_tail)
  have r2: "dropWhile (\<lambda>c. c \<noteq> CHR ''@'') (rev h @ CHR ''@'' # rev p) = CHR ''@'' # rev p"
    using assms(2) by (auto simp: dropWhile_append3)
  show ?thesis
    by (simp add: parse_def Let_def tw dw r1 r2)
qed


lemma toString_parse:
  assumes "parse s = Inr i"
  shows "toString i = s"
proof -
  define addr where "addr = takeWhile (\<lambda>c. c \<noteq> CHR ''/'') s"
  define after where "after = dropWhile (\<lambda>c. c \<noteq> CHR ''/'') s"
  define tw where "tw = takeWhile (\<lambda>c. c \<noteq> CHR ''@'') (rev addr)"
  define dw where "dw = dropWhile (\<lambda>c. c \<noteq> CHR ''@'') (rev addr)"
  from assms have at: "CHR ''@'' \<in> set addr"
    and i: "i = \<lparr>person = rev (tl dw), host = rev tw,
                 resource = (case after of [] \<Rightarrow> None | slash # r \<Rightarrow> Some r)\<rparr>"
    unfolding addr_def after_def tw_def dw_def
    by (auto simp: parse_def Let_def split: if_splits)
  from at have ne: "dw \<noteq> []"
    unfolding dw_def by (simp add: dropWhile_eq_Nil_conv)
  have hd: "hd dw = CHR ''@''"
    using ne hd_dropWhile [of "\<lambda>c. c \<noteq> CHR ''@''" "rev addr"] unfolding dw_def by simp
  have split: "rev addr = tw @ dw"
    unfolding tw_def dw_def by simp
  have "addr = rev (rev addr)" by simp
  also have "\<dots> = rev dw @ rev tw" unfolding split by simp
  also have "\<dots> = rev (tl dw) @ [CHR ''@''] @ rev tw"
    using ne hd by (cases dw) simp_all
  finally have addr: "addr = rev (tl dw) @ [CHR ''@''] @ rev tw" .
  have after: "(case after of [] \<Rightarrow> [] | slash # r \<Rightarrow> ''/'' @ r) = after"
  proof (cases after)
    case Nil
    then show ?thesis by simp
  next
    case (Cons slash r)
    then have "hd after = CHR ''/''"
      using hd_dropWhile [of "\<lambda>c. c \<noteq> CHR ''/''" s] unfolding after_def by simp
    with Cons show ?thesis by simp
  qed
  have whole: "s = addr @ after"
    unfolding addr_def after_def by simp
  have "toString i = rev (tl dw) @ [CHR ''@''] @ rev tw
          @ (case after of [] \<Rightarrow> [] | slash # r \<Rightarrow> ''/'' @ r)"
    unfolding i toString_def by (simp split: list.splits)
  also have "\<dots> = addr @ after"
    unfolding after using addr by simp
  finally show ?thesis using whole by simp
qed


lemma cut_point_cases:
  "cut_point limit s = limit
   \<or> (0 < cut_point limit s \<and> cut_point limit s < Suc limit
      \<and> Suc (chunks_needed limit (length s - cut_point limit s)) = chunks_needed limit (length s))"
proof (cases "filter (\<lambda>k. whitespace_boundary s k
                      \<and> Suc (chunks_needed limit (length s - k)) = chunks_needed limit (length s))
             (rev [1..<Suc limit])")
  case Nil
  then show ?thesis by (simp add: cut_point_def)
next
  case (Cons k ks)
  then have "k \<in> set (filter (\<lambda>k. whitespace_boundary s k
                      \<and> Suc (chunks_needed limit (length s - k)) = chunks_needed limit (length s))
             (rev [1..<Suc limit]))"
    by simp
  then have "0 < k \<and> k < Suc limit
      \<and> Suc (chunks_needed limit (length s - k)) = chunks_needed limit (length s)"
    by auto
  with Cons show ?thesis by (simp add: cut_point_def)
qed

lemma cut_point_bounds:
  "0 < limit \<Longrightarrow> 0 < cut_point limit s \<and> cut_point limit s \<le> limit"
  using cut_point_cases [of limit s] by auto

lemma chunks_needed_limit:
  assumes "0 < limit" "limit < n"
  shows "Suc (chunks_needed limit (n - limit)) = chunks_needed limit n"
proof -
  have "n + limit - 1 = (n - limit + limit - 1) + limit"
    using assms by simp
  then have "(n + limit - 1) div limit = (n - limit + limit - 1) div limit + 1"
    using assms by (simp only: div_add_self2)
  then show ?thesis by (simp add: chunks_needed_def)
qed

lemma cut_point_minimal:
  assumes "0 < limit" "limit < length s"
  shows "Suc (chunks_needed limit (length s - cut_point limit s)) = chunks_needed limit (length s)"
  using cut_point_cases [of limit s] chunks_needed_limit [OF assms] by auto

lemma concat_split_chunks: "concat (split_chunks limit s) = s"
proof (induction limit s rule: split_chunks.induct)
  case (1 limit s)
  show ?case
  proof (cases "limit = 0 \<or> length s \<le> limit")
    case True
    then show ?thesis by (subst split_chunks.simps) simp
  next
    case False
    from "1" [OF False] show ?thesis
      using False by (subst split_chunks.simps) simp
  qed
qed

lemma split_chunks_at_most:
  "0 < limit \<Longrightarrow> \<forall>c\<in>set (split_chunks limit s). length c \<le> limit"
proof (induction limit s rule: split_chunks.induct)
  case (1 limit s)
  show ?case
  proof (cases "limit = 0 \<or> length s \<le> limit")
    case True
    then show ?thesis using "1.prems" by (subst split_chunks.simps) simp
  next
    case False
    from "1.IH" [OF False "1.prems"] cut_point_bounds [OF "1.prems", of s] show ?thesis
      using False by (subst split_chunks.simps) simp
  qed
qed

lemma length_split_chunks:
  "0 < limit \<Longrightarrow> s \<noteq> [] \<Longrightarrow> length (split_chunks limit s) = chunks_needed limit (length s)"
proof (induction limit s rule: split_chunks.induct)
  case (1 limit s)
  show ?case
  proof (cases "limit = 0 \<or> length s \<le> limit")
    case True
    with "1.prems" have "0 < length s" "length s \<le> limit" by simp_all
    then have e: "length s + limit - 1 = (length s - 1) + limit" and less: "length s - 1 < limit"
      by arith+
    have "(length s + limit - 1) div limit = ((length s - 1) + limit) div limit"
      by (simp only: e)
    also have "\<dots> = (length s - 1) div limit + 1"
      using "1.prems"(1) by (simp only: div_add_self2)
    also have "\<dots> = 1"
      using less by simp
    finally have "(length s + limit - 1) div limit = 1" .
    with True show ?thesis by (subst split_chunks.simps) (simp add: chunks_needed_def)
  next
    case False
    then have lim: "0 < limit" "limit < length s" by simp_all
    from cut_point_bounds [OF lim(1), of s] lim have ne: "drop (cut_point limit s) s \<noteq> []"
      by simp
    from "1.IH" [OF False lim(1) ne] cut_point_minimal [OF lim] show ?thesis
      using False by (subst split_chunks.simps) simp
  qed
qed


lemma split_chunks_fits: "length s \<le> limit \<Longrightarrow> split_chunks limit s = [s]"
  by (subst split_chunks.simps) simp

lemma concat_map_fits:
  "\<forall>item\<in>set items. length item \<le> limit \<Longrightarrow> concat (map (split_chunks limit) items) = items"
  by (induction items) (simp_all add: split_chunks_fits)

lemma consume_yields_then_fails:
  "consume cfg (yields_then_fails items description) = items @ [error_text cfg description]"
  by (induction items) (simp_all add: yields_then_fails_def)

lemma consume_yields_all: "consume cfg (yields_all items) = items"
  by (induction items) (simp_all add: yields_all_def)

lemma map_body_build_reply: "map (msg_body \<circ> build_reply cfg mess) texts = texts"
  by (induction texts) (simp_all add: build_reply_def)

lemma three_chunks:
  assumes "0 < limit" "length s = 3 * limit"
  shows "split_chunks limit s = [take limit s, take limit (drop limit s), drop (2 * limit) s]"
proof -
  from assms have ne: "s \<noteq> []" by auto
  have "3 * limit + limit - 1 = 2 * limit + (limit - 1) + limit"
    using assms(1) by arith
  then have "(3 * limit + limit - 1) div limit = (2 * limit + (limit - 1)) div limit + 1"
    using assms(1) by (simp only: div_add_self2)
  also have "(2 * limit + (limit - 1)) div limit = 2 + (limit - 1) div limit"
    using assms(1) by (simp only: div_mult_self3)
  also have "(limit - 1) div limit = 0"
    using assms(1) by simp
  finally have "chunks_needed limit (length s) = 3"
    by (simp add: chunks_needed_def assms(2))
  with length_split_chunks [OF assms(1) ne] have len: "length (split_chunks limit s) = 3"
    by simp
  then obtain a b c where abc: "split_chunks limit s = [a, b, c]"
    by (auto simp: length_Suc_conv numeral_3_eq_3)
  from split_chunks_at_most [OF assms(1), of s] abc
  have le: "length a \<le> limit" "length b \<le> limit" "length c \<le> limit"
    by simp_all
  from concat_split_chunks [of limit s] abc have cat: "a @ b @ c = s"
    by simp
  then have "length a + length b + length c = 3 * limit"
    using assms(2) by (metis add.assoc length_append)
  with le have eq: "length a = limit" "length b = limit" "length c = limit"
    by arith+
  from cat eq have "a = take limit s" "b = take limit (drop limit s)" "c = drop (2 * limit) s"
    by (auto simp: mult_2)
  with abc show ?thesis by simp
qed


lemmas pipeline_defs = example_message_def small_limit_config_def

subsection \<open>Identifier round trip\<close>

text \<open>
  C8. For every address string \<open>s\<close> of the shape \<open>person@host/resource\<close>, where the
  person (the node) may itself contain \<open>@\<close> and neither the person nor the host
  contains \<open>/\<close>, \<open>parse\<close> gives that person, host and resource, and parsing the
  string form of the parsed identifier gives the identifier parsed from \<open>s\<close>. More
  generally, whenever \<open>parse s\<close> succeeds, the string form of its result is \<open>s\<close> itself.
\<close>

theorem parse_toString_round_trip:
  "(CHR ''/'' \<notin> set p \<and> CHR ''@'' \<notin> set h \<and> CHR ''/'' \<notin> set h
      \<and> s = p @ ''@'' @ h @ ''/'' @ r
    \<longrightarrow> parse s = Inr \<lparr>person = p, host = h, resource = Some r\<rparr>
      \<and> parse (toString \<lparr>person = p, host = h, resource = Some r\<rparr>) = parse s)
   \<and> (parse s = Inr i \<longrightarrow> toString i = s \<and> parse (toString i) = parse s)"
proof (intro conjI impI)
  assume "parse s = Inr i"
  then show "toString i = s" by (rule toString_parse)
  then show "parse (toString i) = parse s" by (simp only:)
next
  assume a: "CHR ''/'' \<notin> set p \<and> CHR ''@'' \<notin> set h \<and> CHR ''/'' \<notin> set h
      \<and> s = p @ ''@'' @ h @ ''/'' @ r"
  from a have a1: "CHR ''/'' \<notin> set p" by (elim conjE)
  from a have a2: "CHR ''@'' \<notin> set h" by (elim conjE)
  from a have a3: "CHR ''/'' \<notin> set h" by (elim conjE)
  from a have a4: "s = p @ ''@'' @ h @ ''/'' @ r" by (elim conjE)
  have p: "parse s = Inr \<lparr>person = p, host = h, resource = Some r\<rparr>"
    unfolding a4 by (rule parse_shape [OF a1 a2 a3])
  show "parse s = Inr \<lparr>person = p, host = h, resource = Some r\<rparr>" by (rule p)
  from toString_parse [OF p]
  show "parse (toString \<lparr>person = p, host = h, resource = Some r\<rparr>) = parse s"
    by (simp only:)
qed

theorem parse_toString_round_trip_witness:
  "parse ''gbin@titi.net@gootz.net/toto'' =
     Inr \<lparr>person = ''gbin@titi.net'', host = ''gootz.net'', resource = Some ''toto''\<rparr>
   \<and> toString \<lparr>person = ''gbin@titi.net'', host = ''gootz.net'', resource = Some ''toto''\<rparr> =
       ''gbin@titi.net@gootz.net/toto''
   \<and> parse (toString \<lparr>person = ''gbin@titi.net'', host = ''gootz.net'', resource = Some ''toto''\<rparr>) =
       parse ''gbin@titi.net@gootz.net/toto''"
  using parse_toString_round_trip [of "''gbin@titi.net''" "''gootz.net''" "''gbin@titi.net@gootz.net/toto''"
          "''toto''" "\<lparr>person = ''gbin@titi.net'', host = ''gootz.net'', resource = Some ''toto''\<rparr>"]
  by simp

subsection \<open>Response chunking\<close>

text \<open>
  C2. A text whose length is exactly three times the message-size limit (a positive
  limit) is split into exactly three chunks, each of the length of the limit, which are
  the three consecutive thirds of the text, so they concatenate back to it, in input
  order; the pipeline sends them as three messages. For a sequence of items the chunking
  is applied to each item on its own: the messages sent are the chunks of the first
  item, then the chunks of the second, and so on.
\<close>

theorem three_limit_text_gives_three_messages:
  assumes "0 < MESSAGE_SIZE_LIMIT cfg"
    and "length text = 3 * MESSAGE_SIZE_LIMIT cfg"
  shows
   "split_chunks (MESSAGE_SIZE_LIMIT cfg) text =
      [take (MESSAGE_SIZE_LIMIT cfg) text,
       take (MESSAGE_SIZE_LIMIT cfg) (drop (MESSAGE_SIZE_LIMIT cfg) text),
       drop (2 * MESSAGE_SIZE_LIMIT cfg) text]
    \<and> map msg_body (snd (execute_and_send cfg mess (Returns text) [])) =
        split_chunks (MESSAGE_SIZE_LIMIT cfg) text
    \<and> length (snd (execute_and_send cfg mess (Returns text) outbox)) = length outbox + 3
    \<and> (\<forall>c\<in>set (split_chunks (MESSAGE_SIZE_LIMIT cfg) text). length c \<le> MESSAGE_SIZE_LIMIT cfg)
    \<and> concat (split_chunks (MESSAGE_SIZE_LIMIT cfg) text) = text
    \<and> snd (execute_and_send cfg mess (Yields (yields_all items)) outbox) =
        outbox @ concat (map (\<lambda>item. map (build_reply cfg mess)
                                        (split_chunks (MESSAGE_SIZE_LIMIT cfg) item)) items)
    \<and> map msg_body (snd (execute_and_send cfg mess (Yields (yields_all [text, text])) [])) =
        split_chunks (MESSAGE_SIZE_LIMIT cfg) text @ split_chunks (MESSAGE_SIZE_LIMIT cfg) text"
proof -
  note s1 = three_chunks [OF assms]
  have s2: "map msg_body (snd (execute_and_send cfg mess (Returns text) [])) =
        split_chunks (MESSAGE_SIZE_LIMIT cfg) text"
    by (simp add: execute_and_send_def map_body_build_reply)
  have s3: "length (snd (execute_and_send cfg mess (Returns text) outbox)) = length outbox + 3"
    by (simp add: execute_and_send_def s1)
  have s4: "snd (execute_and_send cfg mess (Yields (yields_all items)) outbox) =
        outbox @ concat (map (\<lambda>item. map (build_reply cfg mess)
                                        (split_chunks (MESSAGE_SIZE_LIMIT cfg) item)) items)"
    by (simp add: execute_and_send_def consume_yields_all map_concat comp_def)
  have s5: "map msg_body (snd (execute_and_send cfg mess (Yields (yields_all [text, text])) [])) =
        split_chunks (MESSAGE_SIZE_LIMIT cfg) text @ split_chunks (MESSAGE_SIZE_LIMIT cfg) text"
    by (simp add: execute_and_send_def consume_yields_all map_body_build_reply)
  show ?thesis
    by (intro conjI s1 s2 s3 s4 s5 split_chunks_at_most [OF assms(1)] concat_split_chunks)
qed

theorem three_limit_text_gives_three_messages_witness:
  "map msg_body (snd (execute_and_send (small_limit_config\<lparr>MESSAGE_SIZE_LIMIT := 4\<rparr>) example_message
      (Returns ''ab cd ef gh '') [])) = [''ab c'', ''d ef'', '' gh '']
   \<and> map msg_body (snd (execute_and_send (small_limit_config\<lparr>MESSAGE_SIZE_LIMIT := 4\<rparr>) example_message
      (Yields (yields_all [''ab cd ef gh '', ''ab cd ef gh ''])) [])) =
      [''ab c'', ''d ef'', '' gh '', ''ab c'', ''d ef'', '' gh '']"
  using three_limit_text_gives_three_messages [of "small_limit_config\<lparr>MESSAGE_SIZE_LIMIT := 4\<rparr>"
          "''ab cd ef gh ''" example_message "[]" "[]"]
  by (simp add: pipeline_defs)

subsection \<open>A handler that fails while producing its sequence\<close>

text \<open>
  C1, as the model of the specification has it. When the handler produces the items of a
  list and then fails, no failure leaves the pipeline, and the bodies sent are the chunks
  of each item, in production order, followed by the chunks of the synthetic error text,
  which contains the marker \<open>MSG_ERROR_OCCURRED\<close>. When no item and not the error text
  exceed the message-size limit, these are exactly the items, one message each, followed
  by exactly one error message: as many normal messages as items, for any number of
  items.
\<close>

theorem failing_sequence_sends_items_then_error:
  "fst (execute_and_send cfg mess (Yields (yields_then_fails items description)) outbox) = None
   \<and> map msg_body (snd (execute_and_send cfg mess (Yields (yields_then_fails items description)) [])) =
       concat (map (split_chunks (MESSAGE_SIZE_LIMIT cfg)) items)
         @ split_chunks (MESSAGE_SIZE_LIMIT cfg) (error_text cfg description)
   \<and> ((\<forall>item\<in>set items. length item \<le> MESSAGE_SIZE_LIMIT cfg)
        \<and> length (error_text cfg description) \<le> MESSAGE_SIZE_LIMIT cfg
      \<longrightarrow> map msg_body (snd (execute_and_send cfg mess (Yields (yields_then_fails items description)) [])) =
            items @ [error_text cfg description]
        \<and> length (snd (execute_and_send cfg mess (Yields (yields_then_fails items description)) outbox)) =
            length outbox + length items + 1)
   \<and> sublist (MSG_ERROR_OCCURRED cfg) (error_text cfg description)"
proof -
  have a: "fst (execute_and_send cfg mess (Yields (yields_then_fails items description)) outbox) = None"
    by (simp add: execute_and_send_def)
  have b: "map msg_body (snd (execute_and_send cfg mess (Yields (yields_then_fails items description)) [])) =
       concat (map (split_chunks (MESSAGE_SIZE_LIMIT cfg)) items)
         @ split_chunks (MESSAGE_SIZE_LIMIT cfg) (error_text cfg description)"
    by (simp add: execute_and_send_def consume_yields_then_fails map_body_build_reply)
  have c: "map msg_body (snd (execute_and_send cfg mess (Yields (yields_then_fails items description)) [])) =
            items @ [error_text cfg description]
        \<and> length (snd (execute_and_send cfg mess (Yields (yields_then_fails items description)) outbox)) =
            length outbox + length items + 1"
    if "\<forall>item\<in>set items. length item \<le> MESSAGE_SIZE_LIMIT cfg"
      and "length (error_text cfg description) \<le> MESSAGE_SIZE_LIMIT cfg"
    using that b
    by (simp add: execute_and_send_def consume_yields_then_fails concat_map_fits split_chunks_fits)
  have d: "sublist (MSG_ERROR_OCCURRED cfg) (error_text cfg description)"
    by (simp add: error_text_def)
  have c': "(\<forall>item\<in>set items. length item \<le> MESSAGE_SIZE_LIMIT cfg)
        \<and> length (error_text cfg description) \<le> MESSAGE_SIZE_LIMIT cfg
      \<longrightarrow> map msg_body (snd (execute_and_send cfg mess (Yields (yields_then_fails items description)) [])) =
            items @ [error_text cfg description]
        \<and> length (snd (execute_and_send cfg mess (Yields (yields_then_fails items description)) outbox)) =
            length outbox + length items + 1"
  proof
    assume ab: "(\<forall>item\<in>set items. length item \<le> MESSAGE_SIZE_LIMIT cfg)
        \<and> length (error_text cfg description) \<le> MESSAGE_SIZE_LIMIT cfg"
    show "map msg_body (snd (execute_and_send cfg mess (Yields (yields_then_fails items description)) [])) =
            items @ [error_text cfg description]
        \<and> length (snd (execute_and_send cfg mess (Yields (yields_then_fails items description)) outbox)) =
            length outbox + length items + 1"
      by (rule c [OF conjunct1 [OF ab] conjunct2 [OF ab]])
  qed
  show ?thesis
    by (intro conjI a b c' d)
qed

theorem failing_sequence_sends_items_then_error_witness:
  "map msg_body (snd (execute_and_send small_limit_config example_message
      (Yields (yields_then_fails [''foobar''] ''Boom'')) [])) = [''foobar'', ''Oops: Boom'']
   \<and> map msg_body (snd (execute_and_send small_limit_config example_message
      (Yields (yields_then_fails [] ''Boom'')) [])) = [''Oops: Boom'']"
  using failing_sequence_sends_items_then_error [of small_limit_config example_message
          "[''foobar'']" "''Boom''" "[]"]
        failing_sequence_sends_items_then_error [of small_limit_config example_message
          "[]" "''Boom''" "[]"]
  by (simp add: pipeline_defs error_text_def split_chunks_fits)

text \<open>
  C1, as the claim states it, fails: with a limit of ten characters, a handler that
  produces the one item \<open>0123456789abcdefghij\<close> and then fails sends two normal messages
  before the error message, not one.
\<close>

theorem oversized_item_counterexample:
  "map msg_body (snd (execute_and_send small_limit_config example_message
      (Yields (yields_then_fails [''0123456789abcdefghij''] ''Boom'')) [])) =
     [''0123456789'', ''abcdefghij'', ''Oops: Boom'']"
  by code_simp

end
